theory Spec2Isabelle
  imports Main "HOL-Library.AList"
begin

section \<open>Python values\<close>

text \<open>
  The parameters of the \<open>NMCLI\<close> service are Python objects: \<open>None\<close>, booleans, integers
  and strings (the types its docstrings document). Strings are lists of characters; a
  character stands for one code point below 256.
\<close>

datatype pyval = PNone | PBool bool | PInt int | PStr string

text \<open>Truth value of an object, as tested by \<open>if value:\<close>.\<close>

fun py_truthy :: "pyval \<Rightarrow> bool" where
  "py_truthy PNone = False"
| "py_truthy (PBool b) = b"
| "py_truthy (PInt n) = (n \<noteq> 0)"
| "py_truthy (PStr s) = (s \<noteq> [])"

text \<open>Decimal digits of a natural number, most significant first.\<close>

fun digits :: "nat \<Rightarrow> string" where
  "digits n =
     (if n < 10 then [''0123456789'' ! n]
      else digits (n div 10) @ [''0123456789'' ! (n mod 10)])"

definition str_int :: "int \<Rightarrow> string" where
  "str_int i = (if i < 0 then ''-'' @ digits (nat (- i)) else digits (nat i))"

text \<open>\<open>str(value)\<close>, which is what a \<open>{field}\<close> of \<open>str.format\<close> renders.\<close>

fun py_str :: "pyval \<Rightarrow> string" where
  "py_str PNone = ''None''"
| "py_str (PBool b) = (if b then ''True'' else ''False'')"
| "py_str (PInt n) = str_int n"
| "py_str (PStr s) = s"

section \<open>Constants of the module\<close>

definition Objects_CONNECTION :: string where "Objects_CONNECTION = ''connection''"
definition Objects_DEVICE :: string where "Objects_DEVICE = ''device''"

definition Operations_ADD :: string where "Operations_ADD = ''add''"
definition Operations_MODIFY :: string where "Operations_MODIFY = ''modify''"
definition Operations_DELETE :: string where "Operations_DELETE = ''delete''"
definition Operations_SHOW :: string where "Operations_SHOW = ''show''"

definition NmGeneralSettings_DEVICE :: string where
  "NmGeneralSettings_DEVICE = ''GENERAL.'' @ ''DEVICE''"
definition NmGeneralSettings_TYPE :: string where
  "NmGeneralSettings_TYPE = ''GENERAL.'' @ ''TYPE''"
definition NmGeneralSettings_MAC :: string where
  "NmGeneralSettings_MAC = ''GENERAL.'' @ ''HWADDR''"
definition NmGeneralSettings_MTU :: string where
  "NmGeneralSettings_MTU = ''GENERAL.'' @ ''MTU''"

definition ObjectDetails_NAME :: string where "ObjectDetails_NAME = ''name''"
definition ObjectDetails_TYPE :: string where "ObjectDetails_TYPE = ''type''"
definition ConnectionDetails_UUID :: string where "ConnectionDetails_UUID = ''uuid''"
definition ConnectionDetails_DEVICE :: string where "ConnectionDetails_DEVICE = ''device''"
definition DeviceDetails_MAC :: string where "DeviceDetails_MAC = ''mac''"
definition DeviceDetails_MTU :: string where "DeviceDetails_MTU = ''mtu''"

definition Types_ETHERNET :: string where "Types_ETHERNET = ''ethernet''"
definition Types_BOND :: string where "Types_BOND = ''bond''"
definition Types_VLAN :: string where "Types_VLAN = ''vlan''"
definition Types_DUMMY :: string where "Types_DUMMY = ''dummy''"

definition EthernetOptions_MAC :: string where "EthernetOptions_MAC = ''mac''"
definition EthernetOptions_MTU :: string where "EthernetOptions_MTU = ''mtu''"
definition BondOptions_MODE :: string where "BondOptions_MODE = ''mode''"
definition BondOptions_MIIMON :: string where "BondOptions_MIIMON = ''miimon''"
definition SlaveOptions_MASTER :: string where "SlaveOptions_MASTER = ''master''"
definition VlanOptions_DEV :: string where "VlanOptions_DEV = ''dev''"
definition VlanOptions_ID :: string where "VlanOptions_ID = ''id''"
definition VlanOptions_MTU :: string where "VlanOptions_MTU = ''mtu''"

section \<open>The command builder\<close>

text \<open>
  \<open>NMCLI._ip_options_builder\<close>: the command starts empty and each of the six guarded
  statements appends to it, in the order of the source.
\<close>

definition ip_options_builder ::
  "pyval \<Rightarrow> pyval \<Rightarrow> pyval \<Rightarrow> pyval \<Rightarrow> pyval \<Rightarrow> pyval \<Rightarrow> string" where
  "ip_options_builder ipv4_addr ipv4_gw ipv4_method ipv6_addr ipv6_gw ipv6_method =
     (let command = '''';
          command = (if py_truthy ipv4_method
                     then command @ '' ipv4.method '' @ py_str ipv4_method else command);
          command = (if py_truthy ipv6_method
                     then command @ '' ipv6.method '' @ py_str ipv6_method else command);
          command = (if py_truthy ipv4_addr
                     then command @ '' ipv4.addresses '' @ py_str ipv4_addr else command);
          command = (if py_truthy ipv4_gw
                     then command @ '' ipv4.gateway '' @ py_str ipv4_gw else command);
          command = (if py_truthy ipv6_addr
                     then command @ '' ipv6.addresses '' @ py_str ipv6_addr else command);
          command = (if py_truthy ipv6_gw
                     then command @ '' ipv6.gateway '' @ py_str ipv6_gw else command)
      in command)"

text \<open>The local function \<open>_get_str_value\<close>: \<open>"yes" if value is True else "no"\<close>.\<close>

definition get_str_value :: "pyval \<Rightarrow> string" where
  "get_str_value v = (if v = PBool True then ''yes'' else ''no'')"

text \<open>\<open>NMCLI._common_options_builder\<close>.\<close>

definition common_options_builder ::
  "pyval \<Rightarrow> pyval \<Rightarrow> pyval \<Rightarrow> pyval \<Rightarrow> pyval \<Rightarrow> string" where
  "common_options_builder con_type con_name ifname auto_connect save =
     (let common_options =
            ''type '' @ py_str con_type @ '' con-name '' @ py_str con_name
              @ '' ifname '' @ py_str ifname;
          common_options = (if auto_connect \<noteq> PNone
                            then common_options @ '' autoconnect '' @ get_str_value auto_connect
                            else common_options);
          common_options = (if save \<noteq> PNone
                            then common_options @ '' save '' @ get_str_value save
                            else common_options)
      in common_options)"

text \<open>
  A dictionary of type options is an association list in insertion order. The loop over
  \<open>type_options.items()\<close> appends one \<open>" <property> <value>"\<close> per item.
\<close>

type_synonym pydict = "(string \<times> pyval) list"

fun type_options_loop :: "string \<Rightarrow> pydict \<Rightarrow> string" where
  "type_options_loop command [] = command"
| "type_options_loop command ((property, v) # items) =
     type_options_loop (command @ '' '' @ property @ '' '' @ py_str v) items"

text \<open>
  \<open>NMCLI._nmcli_cmd_builder\<close>. The argument \<open>type_options\<close> is \<open>None\<close> or a dictionary;
  \<open>if type_options:\<close> holds for a dictionary with at least one item.
\<close>

definition nmcli_cmd_builder ::
  "string \<Rightarrow> string \<Rightarrow> pyval \<Rightarrow> pyval \<Rightarrow> pyval \<Rightarrow> pyval \<Rightarrow> pyval \<Rightarrow>
   pyval \<Rightarrow> pyval \<Rightarrow> pyval \<Rightarrow> pyval \<Rightarrow> pyval \<Rightarrow> pyval \<Rightarrow> pydict option \<Rightarrow> string" where
  "nmcli_cmd_builder object_type operation name con_type ifname auto_connect save
       ipv4_method ipv4_addr ipv4_gw ipv6_method ipv6_addr ipv6_gw type_options =
     (let command = ''nmcli '' @ object_type @ '' '' @ operation;
          command =
            (if operation = Operations_DELETE \<or> operation = Operations_MODIFY
             then command @ '' '' @ py_str name
             else if operation = Operations_ADD
             then command @ '' ''
                    @ common_options_builder con_type name ifname auto_connect save
             else command);
          command =
            (case type_options of
               None \<Rightarrow> command
             | Some items \<Rightarrow> if items \<noteq> [] then type_options_loop command items else command);
          command = command
                      @ ip_options_builder ipv4_addr ipv4_gw ipv4_method
                          ipv6_addr ipv6_gw ipv6_method
      in command)"

section \<open>Text processing of the standard library\<close>

text \<open>
  \<open>str.splitlines()\<close>: a line ends at a line boundary (\<open>\n\<close>, \<open>\r\<close>, \<open>\r\n\<close>, \<open>\v\<close>,
  \<open>\f\<close>, \<open>\x1c\<close>, \<open>\x1d\<close>, \<open>\x1e\<close>, \<open>\x85\<close>); the boundary is not part of the line, and
  what follows the last boundary is a line only if it is not empty.
\<close>

definition line_boundaries :: "char list" where
  "line_boundaries =
     [CHR 0x0A, CHR 0x0B, CHR 0x0C, CHR 0x0D, CHR 0x1C, CHR 0x1D, CHR 0x1E, CHR 0x85]"

fun splitlines_loop :: "string \<Rightarrow> string \<Rightarrow> string list" where
  "splitlines_loop line [] = (if line = [] then [] else [line])"
| "splitlines_loop line [c] =
     (if c \<in> set line_boundaries then [line] else [line @ [c]])"
| "splitlines_loop line (c # d # cs) =
     (if c = CHR 0x0D \<and> d = CHR 0x0A then line # splitlines_loop [] cs
      else if c \<in> set line_boundaries then line # splitlines_loop [] (d # cs)
      else splitlines_loop (line @ [c]) (d # cs))"

definition splitlines :: "string \<Rightarrow> string list" where
  "splitlines s = splitlines_loop [] s"

text \<open>\<open>str.split(sep)\<close> for a separator of one character: always at least one field.\<close>

fun split_loop :: "char \<Rightarrow> string \<Rightarrow> string \<Rightarrow> string list" where
  "split_loop sep field [] = [field]"
| "split_loop sep field (c # cs) =
     (if c = sep then field # split_loop sep [] cs else split_loop sep (field @ [c]) cs)"

definition str_split :: "char \<Rightarrow> string \<Rightarrow> string list" where
  "str_split sep s = split_loop sep [] s"

text \<open>
  Exceptions are values; a computation that raises returns \<open>Inl\<close>. The class
  \<open>CommandExecutionFailure\<close> is declared in \<open>rrmngmnt.errors\<close>; its value holds the
  arguments \<open>cmd\<close>, \<open>rc\<close> and \<open>err\<close> of the call that constructs it in \<open>_exec_command\<close>.
  \<open>ValueError\<close> is what \<open>shlex.split\<close> raises, with its message.
\<close>

datatype py_error =
    CommandExecutionFailure (failure_cmd: "string list") (failure_rc: int) (failure_err: string)
  | IndexError
  | ValueError string

text \<open>\<open>xs[i]\<close> for a literal index \<open>i \<ge> 0\<close>.\<close>

definition getitem :: "'a list \<Rightarrow> nat \<Rightarrow> py_error + 'a" where
  "getitem xs i = (if i < length xs then Inr (xs ! i) else Inl IndexError)"

text \<open>
  \<open>shlex.split(s)\<close> of Python's standard library: the lexer in POSIX mode with
  \<open>whitespace_split\<close> set and no comment characters. The lexer reads one character at a
  time in a state that is \<open>' '\<close> (between words), \<open>'a'\<close> (in a word), a quote character
  or the escape character. Each \<open>break\<close> of \<open>read_token\<close> hands the token over and the
  next call starts with an empty token, \<open>quoted = False\<close> and \<open>escapedstate = ' '\<close>, in
  the state the lexer was left in; the loop below runs these calls one after the other
  over the input and collects the tokens. Word characters and other characters are
  treated alike under \<open>whitespace_split\<close>, so they share a branch.
\<close>

definition shlex_whitespace :: "char list" where
  "shlex_whitespace = [CHR '' '', CHR 0x09, CHR 0x0D, CHR 0x0A]"
definition shlex_quotes :: "char list" where
  "shlex_quotes = [CHR 0x27, CHR 0x22]"
definition shlex_escape :: "char list" where
  "shlex_escape = [CHR 0x5C]"
definition shlex_escapedquotes :: "char list" where
  "shlex_escapedquotes = [CHR 0x22]"

fun shlex_loop ::
  "char \<Rightarrow> string \<Rightarrow> bool \<Rightarrow> char \<Rightarrow> string list \<Rightarrow> string \<Rightarrow> py_error + string list" where
  "shlex_loop st token quoted escapedstate tokens [] =
     (if st \<in> set shlex_quotes then Inl (ValueError ''No closing quotation'')
      else if st \<in> set shlex_escape then Inl (ValueError ''No escaped character'')
      else if \<not> quoted \<and> token = [] then Inr tokens
      else Inr (tokens @ [token]))"
| "shlex_loop st token quoted escapedstate tokens (nextchar # instream) =
     (if st = CHR '' '' then
        (if nextchar \<in> set shlex_whitespace then
           (if token \<noteq> [] \<or> quoted
            then shlex_loop st [] False (CHR '' '') (tokens @ [token]) instream
            else shlex_loop st token quoted escapedstate tokens instream)
         else if nextchar \<in> set shlex_escape
         then shlex_loop nextchar token quoted (CHR ''a'') tokens instream
         else if nextchar \<in> set shlex_quotes
         then shlex_loop nextchar token quoted escapedstate tokens instream
         else shlex_loop (CHR ''a'') [nextchar] quoted escapedstate tokens instream)
      else if st \<in> set shlex_quotes then
        (if nextchar = st
         then shlex_loop (CHR ''a'') token True escapedstate tokens instream
         else if nextchar \<in> set shlex_escape \<and> st \<in> set shlex_escapedquotes
         then shlex_loop nextchar token True st tokens instream
         else shlex_loop st (token @ [nextchar]) True escapedstate tokens instream)
      else if st \<in> set shlex_escape then
        shlex_loop escapedstate
          ((if escapedstate \<in> set shlex_quotes \<and> nextchar \<noteq> st \<and> nextchar \<noteq> escapedstate
            then token @ [st] else token) @ [nextchar])
          quoted escapedstate tokens instream
      else
        (if nextchar \<in> set shlex_whitespace then
           (if token \<noteq> [] \<or> quoted
            then shlex_loop (CHR '' '') [] False (CHR '' '') (tokens @ [token]) instream
            else shlex_loop (CHR '' '') token quoted escapedstate tokens instream)
         else if nextchar \<in> set shlex_quotes
         then shlex_loop nextchar token quoted escapedstate tokens instream
         else if nextchar \<in> set shlex_escape
         then shlex_loop nextchar token quoted (CHR ''a'') tokens instream
         else shlex_loop st (token @ [nextchar]) quoted escapedstate tokens instream))"

definition shlex_split :: "string \<Rightarrow> py_error + string list" where
  "shlex_split s = shlex_loop (CHR '' '') [] False (CHR '' '') [] s"

section \<open>The execution and parsing facade\<close>

text \<open>
  The service holds the executor of its host (an object with a method \<open>run_cmd\<close> and a
  state of its own, which a call may change) and a logger, whose state is the list of
  messages logged at level error. An operation takes the service and returns its result
  or the exception raised, with the service after the call.
\<close>

type_synonym run_result = "int \<times> string \<times> string"

record 'e nmcli =
  run_cmd :: "'e \<Rightarrow> string list \<Rightarrow> run_result \<times> 'e"
  executor :: 'e
  logger :: "string list"

text \<open>\<open>ERROR_MSG_FORMAT.format(command=..., rc=..., out=..., err=...)\<close>.\<close>

definition error_msg :: "string \<Rightarrow> int \<Rightarrow> string \<Rightarrow> string \<Rightarrow> string" where
  "error_msg command r out e =
     ''command -> '' @ command @ [CHR 0x0A] @ ''RC -> '' @ str_int r @ [CHR 0x0A]
       @ ''OUT -> '' @ out @ [CHR 0x0A] @ ''ERROR -> '' @ e"

text \<open>
  \<open>NMCLI._exec_command\<close>. The exception is built from the executor, the split command,
  the exit code and the error output; the executor is the service's own and is not
  repeated in the value.
\<close>

definition exec_command :: "'e nmcli \<Rightarrow> string \<Rightarrow> (py_error + string) \<times> 'e nmcli" where
  "exec_command self command =
     (case shlex_split command of
        Inl e \<Rightarrow> (Inl e, self)
      | Inr split \<Rightarrow>
          (case run_cmd self (executor self) split of
             ((r, out, e), executor') \<Rightarrow>
               (let self = self\<lparr>executor := executor'\<rparr> in
                if r \<noteq> 0
                then (Inl (CommandExecutionFailure split r e),
                      self\<lparr>logger := logger self @ [error_msg command r out e]\<rparr>)
                else (Inr out, self))))"

text \<open>A record of the result lists is a dictionary with string values.\<close>

type_synonym details = "(string \<times> string) list"

text \<open>\<open>NMCLI.get_all_connections\<close>: the loop over the lines, then the method.\<close>

fun connections_loop :: "string list \<Rightarrow> details list \<Rightarrow> py_error + details list" where
  "connections_loop [] connections = Inr connections"
| "connections_loop (line # lines) connections =
     (let properties = str_split (CHR '':'') line in
      case getitem properties 0 of Inl e \<Rightarrow> Inl e | Inr p0 \<Rightarrow>
      (case getitem properties 1 of Inl e \<Rightarrow> Inl e | Inr p1 \<Rightarrow>
      (case getitem properties 2 of Inl e \<Rightarrow> Inl e | Inr p2 \<Rightarrow>
      (case getitem properties 3 of Inl e \<Rightarrow> Inl e | Inr p3 \<Rightarrow>
        connections_loop lines
          (connections @
             [[(ObjectDetails_NAME, p0), (ConnectionDetails_UUID, p1),
               (ObjectDetails_TYPE, p2), (ConnectionDetails_DEVICE, p3)]])))))"

definition get_all_connections :: "'e nmcli \<Rightarrow> (py_error + details list) \<times> 'e nmcli" where
  "get_all_connections self =
     (case exec_command self (''nmcli -t '' @ Objects_CONNECTION @ '' '' @ Operations_SHOW) of
        (Inl e, self) \<Rightarrow> (Inl e, self)
      | (Inr out, self) \<Rightarrow> (connections_loop (splitlines out) [], self))"




section \<open>The operations that add a connection\<close>

text \<open>
  Each operation builds its dictionary of type options, builds the command and executes
  it. The command is the argument \<open>command=...\<close> of the call of \<open>_exec_command\<close>; the
  operation returns \<open>None\<close> unless the execution raises.
\<close>

definition returning_none ::
  "(py_error + string) \<times> 'e nmcli \<Rightarrow> (py_error + unit) \<times> 'e nmcli" where
  "returning_none r = (case r of (Inl e, self) \<Rightarrow> (Inl e, self) | (Inr out, self) \<Rightarrow> (Inr (), self))"

definition add_ethernet_connection_command ::
  "pyval \<Rightarrow> pyval \<Rightarrow> pyval \<Rightarrow> pyval \<Rightarrow> pyval \<Rightarrow> pyval \<Rightarrow>
   pyval \<Rightarrow> pyval \<Rightarrow> pyval \<Rightarrow> pyval \<Rightarrow> pyval \<Rightarrow> pyval \<Rightarrow> string" where
  "add_ethernet_connection_command name ifname auto_connect save mac mtu
       ipv4_method ipv4_addr ipv4_gw ipv6_method ipv6_addr ipv6_gw =
     (let type_options = [];
          type_options = (if py_truthy mac
                          then AList.update EthernetOptions_MAC mac type_options
                          else type_options);
          type_options = (if py_truthy mtu
                          then AList.update EthernetOptions_MTU mtu type_options
                          else type_options)
      in nmcli_cmd_builder Objects_CONNECTION Operations_ADD name (PStr Types_ETHERNET) ifname
           auto_connect save ipv4_method ipv4_addr ipv4_gw ipv6_method ipv6_addr ipv6_gw
           (Some type_options))"

definition add_ethernet_connection ::
  "'e nmcli \<Rightarrow> pyval \<Rightarrow> pyval \<Rightarrow> pyval \<Rightarrow> pyval \<Rightarrow> pyval \<Rightarrow> pyval \<Rightarrow>
   pyval \<Rightarrow> pyval \<Rightarrow> pyval \<Rightarrow> pyval \<Rightarrow> pyval \<Rightarrow> pyval \<Rightarrow> (py_error + unit) \<times> 'e nmcli" where
  "add_ethernet_connection self name ifname auto_connect save mac mtu
       ipv4_method ipv4_addr ipv4_gw ipv6_method ipv6_addr ipv6_gw =
     returning_none (exec_command self
       (add_ethernet_connection_command name ifname auto_connect save mac mtu
          ipv4_method ipv4_addr ipv4_gw ipv6_method ipv6_addr ipv6_gw))"

definition add_bond_command ::
  "pyval \<Rightarrow> pyval \<Rightarrow> pyval \<Rightarrow> pyval \<Rightarrow> pyval \<Rightarrow> pyval \<Rightarrow>
   pyval \<Rightarrow> pyval \<Rightarrow> pyval \<Rightarrow> pyval \<Rightarrow> pyval \<Rightarrow> pyval \<Rightarrow> string" where
  "add_bond_command con_name ifname mode miimon auto_connect save
       ipv4_method ipv4_addr ipv4_gw ipv6_method ipv6_addr ipv6_gw =
     (let type_options = [];
          type_options = (if py_truthy mode
                          then AList.update BondOptions_MODE mode type_options
                          else type_options);
          type_options = (if py_truthy miimon
                          then AList.update BondOptions_MIIMON miimon type_options
                          else type_options)
      in nmcli_cmd_builder Objects_CONNECTION Operations_ADD con_name (PStr Types_BOND) ifname
           auto_connect save ipv4_method ipv4_addr ipv4_gw ipv6_method ipv6_addr ipv6_gw
           (Some type_options))"

definition add_bond ::
  "'e nmcli \<Rightarrow> pyval \<Rightarrow> pyval \<Rightarrow> pyval \<Rightarrow> pyval \<Rightarrow> pyval \<Rightarrow> pyval \<Rightarrow>
   pyval \<Rightarrow> pyval \<Rightarrow> pyval \<Rightarrow> pyval \<Rightarrow> pyval \<Rightarrow> pyval \<Rightarrow> (py_error + unit) \<times> 'e nmcli" where
  "add_bond self con_name ifname mode miimon auto_connect save
       ipv4_method ipv4_addr ipv4_gw ipv6_method ipv6_addr ipv6_gw =
     returning_none (exec_command self
       (add_bond_command con_name ifname mode miimon auto_connect save
          ipv4_method ipv4_addr ipv4_gw ipv6_method ipv6_addr ipv6_gw))"

definition add_slave_command ::
  "pyval \<Rightarrow> pyval \<Rightarrow> pyval \<Rightarrow> pyval \<Rightarrow> pyval \<Rightarrow> pyval \<Rightarrow> string" where
  "add_slave_command con_name slave_type ifname master auto_connect save =
     (let type_options = [(SlaveOptions_MASTER, master)]
      in nmcli_cmd_builder Objects_CONNECTION Operations_ADD con_name slave_type ifname
           auto_connect save PNone PNone PNone PNone PNone PNone (Some type_options))"

definition add_slave ::
  "'e nmcli \<Rightarrow> pyval \<Rightarrow> pyval \<Rightarrow> pyval \<Rightarrow> pyval \<Rightarrow> pyval \<Rightarrow> pyval \<Rightarrow>
   (py_error + unit) \<times> 'e nmcli" where
  "add_slave self con_name slave_type ifname master auto_connect save =
     returning_none (exec_command self
       (add_slave_command con_name slave_type ifname master auto_connect save))"

definition add_vlan_command ::
  "pyval \<Rightarrow> pyval \<Rightarrow> pyval \<Rightarrow> pyval \<Rightarrow> pyval \<Rightarrow> pyval \<Rightarrow>
   pyval \<Rightarrow> pyval \<Rightarrow> pyval \<Rightarrow> pyval \<Rightarrow> pyval \<Rightarrow> pyval \<Rightarrow> string" where
  "add_vlan_command con_name dev vlan_id mtu auto_connect save
       ipv4_method ipv4_addr ipv4_gw ipv6_method ipv6_addr ipv6_gw =
     (let type_options = [(VlanOptions_DEV, dev), (VlanOptions_ID, vlan_id)];
          type_options = (if py_truthy mtu
                          then AList.update VlanOptions_MTU mtu type_options
                          else type_options)
      in nmcli_cmd_builder Objects_CONNECTION Operations_ADD con_name (PStr Types_VLAN) dev
           auto_connect save ipv4_method ipv4_addr ipv4_gw ipv6_method ipv6_addr ipv6_gw
           (Some type_options))"

definition add_vlan ::
  "'e nmcli \<Rightarrow> pyval \<Rightarrow> pyval \<Rightarrow> pyval \<Rightarrow> pyval \<Rightarrow> pyval \<Rightarrow> pyval \<Rightarrow>
   pyval \<Rightarrow> pyval \<Rightarrow> pyval \<Rightarrow> pyval \<Rightarrow> pyval \<Rightarrow> pyval \<Rightarrow> (py_error + unit) \<times> 'e nmcli" where
  "add_vlan self con_name dev vlan_id mtu auto_connect save
       ipv4_method ipv4_addr ipv4_gw ipv6_method ipv6_addr ipv6_gw =
     returning_none (exec_command self
       (add_vlan_command con_name dev vlan_id mtu auto_connect save
          ipv4_method ipv4_addr ipv4_gw ipv6_method ipv6_addr ipv6_gw))"

definition add_dummy_command ::
  "pyval \<Rightarrow> pyval \<Rightarrow> pyval \<Rightarrow> pyval \<Rightarrow>
   pyval \<Rightarrow> pyval \<Rightarrow> pyval \<Rightarrow> pyval \<Rightarrow> pyval \<Rightarrow> pyval \<Rightarrow> string" where
  "add_dummy_command con_name ifname auto_connect save
       ipv4_method ipv4_addr ipv4_gw ipv6_method ipv6_addr ipv6_gw =
     nmcli_cmd_builder Objects_CONNECTION Operations_ADD con_name (PStr Types_DUMMY) ifname
       auto_connect save ipv4_method ipv4_addr ipv4_gw ipv6_method ipv6_addr ipv6_gw None"

definition add_dummy ::
  "'e nmcli \<Rightarrow> pyval \<Rightarrow> pyval \<Rightarrow> pyval \<Rightarrow> pyval \<Rightarrow>
   pyval \<Rightarrow> pyval \<Rightarrow> pyval \<Rightarrow> pyval \<Rightarrow> pyval \<Rightarrow> pyval \<Rightarrow> (py_error + unit) \<times> 'e nmcli" where
  "add_dummy self con_name ifname auto_connect save
       ipv4_method ipv4_addr ipv4_gw ipv6_method ipv6_addr ipv6_gw =
     returning_none (exec_command self
       (add_dummy_command con_name ifname auto_connect save
          ipv4_method ipv4_addr ipv4_gw ipv6_method ipv6_addr ipv6_gw))"

text \<open>The operations on existing connections and devices.\<close>

definition set_connection_state ::
  "'e nmcli \<Rightarrow> pyval \<Rightarrow> pyval \<Rightarrow> (py_error + unit) \<times> 'e nmcli" where
  "set_connection_state self connection state =
     returning_none (exec_command self
       (''nmcli '' @ Objects_CONNECTION @ '' '' @ py_str state @ '' '' @ py_str connection))"

definition modify_connection ::
  "'e nmcli \<Rightarrow> pyval \<Rightarrow> pydict \<Rightarrow> (py_error + unit) \<times> 'e nmcli" where
  "modify_connection self connection properties =
     returning_none (exec_command self
       (nmcli_cmd_builder Objects_CONNECTION Operations_MODIFY connection PNone PNone PNone PNone
          PNone PNone PNone PNone PNone PNone (Some properties)))"

definition delete_connection ::
  "'e nmcli \<Rightarrow> pyval \<Rightarrow> (py_error + unit) \<times> 'e nmcli" where
  "delete_connection self connection =
     returning_none (exec_command self
       (nmcli_cmd_builder Objects_CONNECTION Operations_DELETE connection PNone PNone PNone PNone
          PNone PNone PNone PNone PNone PNone None))"

definition modify_device ::
  "'e nmcli \<Rightarrow> pyval \<Rightarrow> pydict \<Rightarrow> (py_error + unit) \<times> 'e nmcli" where
  "modify_device self device properties =
     returning_none (exec_command self
       (nmcli_cmd_builder Objects_DEVICE Operations_MODIFY device PNone PNone PNone PNone
          PNone PNone PNone PNone PNone PNone (Some properties)))"

section \<open>An executor that records its calls\<close>

text \<open>
  To count the calls of the executor, the service is run on an executor whose state is the
  list of the argument vectors it has received so far, and which answers a call from that
  history and the argument vector. Every deterministic executor answers so.
\<close>

definition recording ::
  "(string list list \<Rightarrow> string list \<Rightarrow> run_result) \<Rightarrow>
   string list list \<Rightarrow> string list \<Rightarrow> run_result \<times> string list list" where
  "recording answer calls argv = (answer calls argv, calls @ [argv])"

text \<open>
  An answer read from a table of argument vectors, with a result for the vectors that
  are not in it, and the service on a recording executor that has received no call yet
  and has logged nothing.
\<close>

definition scripted ::
  "(string list \<times> run_result) list \<Rightarrow> run_result \<Rightarrow>
   string list list \<Rightarrow> string list \<Rightarrow> run_result" where
  "scripted table otherwise calls argv =
     (case map_of table argv of Some result \<Rightarrow> result | None \<Rightarrow> otherwise)"

definition service ::
  "(string list list \<Rightarrow> string list \<Rightarrow> run_result) \<Rightarrow> string list list nmcli" where
  "service answer = \<lparr>run_cmd = recording answer, executor = [], logger = []\<rparr>"


section \<open>Token view of a command\<close>

text \<open>
  The specification describes a command as a sequence of tokens separated by single
  spaces. \<open>join_tokens\<close> is \<open>" ".join(tokens)\<close>: nothing before the first token, one
  space between two tokens, nothing after the last.
\<close>

fun join_tokens :: "string list \<Rightarrow> string" where
  "join_tokens [] = []"
| "join_tokens [t] = t"
| "join_tokens (t # u # ts) = t @ '' '' @ join_tokens (u # ts)"

section \<open>Simplification setup\<close>

declare digits.simps [simp del]

lemmas nmcli_constants =
  Objects_CONNECTION_def Objects_DEVICE_def
  Operations_ADD_def Operations_MODIFY_def Operations_DELETE_def Operations_SHOW_def
  NmGeneralSettings_DEVICE_def NmGeneralSettings_TYPE_def
  NmGeneralSettings_MAC_def NmGeneralSettings_MTU_def
  ObjectDetails_NAME_def ObjectDetails_TYPE_def
  ConnectionDetails_UUID_def ConnectionDetails_DEVICE_def
  DeviceDetails_MAC_def DeviceDetails_MTU_def
  Types_ETHERNET_def Types_BOND_def Types_VLAN_def Types_DUMMY_def
  EthernetOptions_MAC_def EthernetOptions_MTU_def
  BondOptions_MODE_def BondOptions_MIIMON_def SlaveOptions_MASTER_def
  VlanOptions_DEV_def VlanOptions_ID_def VlanOptions_MTU_def

section \<open>Auxiliary lemmas\<close>

lemma str_int_0: "str_int 0 = ''0''"
  by (simp add: str_int_def digits.simps)

lemma type_options_loop_append:
  "type_options_loop command items =
     command @ concat (map (\<lambda>(k, v). '' '' @ k @ '' '' @ py_str v) items)"
  by (induction items arbitrary: command) auto

lemma join_tokens_Cons:
  "join_tokens (t # ts) = t @ concat (map (\<lambda>u. '' '' @ u) ts)"
  by (induction ts arbitrary: t) simp_all

lemma common_options_builder_unfold:
  "common_options_builder con_type con_name ifname auto_connect save =
     ''type '' @ py_str con_type @ '' con-name '' @ py_str con_name @ '' ifname '' @ py_str ifname
     @ (if auto_connect = PNone then [] else '' autoconnect '' @ get_str_value auto_connect)
     @ (if save = PNone then [] else '' save '' @ get_str_value save)"
  by (simp add: common_options_builder_def Let_def)

lemma ip_options_builder_unfold:
  "ip_options_builder ipv4_addr ipv4_gw ipv4_method ipv6_addr ipv6_gw ipv6_method =
     (if py_truthy ipv4_method then '' ipv4.method '' @ py_str ipv4_method else [])
   @ (if py_truthy ipv6_method then '' ipv6.method '' @ py_str ipv6_method else [])
   @ (if py_truthy ipv4_addr then '' ipv4.addresses '' @ py_str ipv4_addr else [])
   @ (if py_truthy ipv4_gw then '' ipv4.gateway '' @ py_str ipv4_gw else [])
   @ (if py_truthy ipv6_addr then '' ipv6.addresses '' @ py_str ipv6_addr else [])
   @ (if py_truthy ipv6_gw then '' ipv6.gateway '' @ py_str ipv6_gw else [])"
  by (simp add: ip_options_builder_def Let_def)

lemma nmcli_cmd_builder_unfold:
  "nmcli_cmd_builder object_type operation name con_type ifname auto_connect save
       ipv4_method ipv4_addr ipv4_gw ipv6_method ipv6_addr ipv6_gw type_options =
     ''nmcli '' @ object_type @ '' '' @ operation
     @ (if operation = Operations_DELETE \<or> operation = Operations_MODIFY
        then '' '' @ py_str name
        else if operation = Operations_ADD
        then '' '' @ common_options_builder con_type name ifname auto_connect save
        else [])
     @ concat (map (\<lambda>(k, v). '' '' @ k @ '' '' @ py_str v)
         (case type_options of None \<Rightarrow> [] | Some items \<Rightarrow> items))
     @ ip_options_builder ipv4_addr ipv4_gw ipv4_method ipv6_addr ipv6_gw ipv6_method"
  by (simp add: nmcli_cmd_builder_def Let_def type_options_loop_append split: option.split)

lemma add_not_delete_modify:
  "Operations_ADD \<noteq> Operations_DELETE" "Operations_ADD \<noteq> Operations_MODIFY"
  by (simp_all add: nmcli_constants)

lemma add_ethernet_connection_command_unfold:
  "add_ethernet_connection_command name ifname auto_connect save mac mtu
       ipv4_method ipv4_addr ipv4_gw ipv6_method ipv6_addr ipv6_gw =
     nmcli_cmd_builder Objects_CONNECTION Operations_ADD name (PStr Types_ETHERNET) ifname
       auto_connect save ipv4_method ipv4_addr ipv4_gw ipv6_method ipv6_addr ipv6_gw
       (Some ((if mac = PNone \<or> \<not> py_truthy mac then [] else [(''mac'', mac)])
              @ (if mtu = PNone \<or> \<not> py_truthy mtu then [] else [(''mtu'', mtu)])))"
  by (cases mac; cases mtu)
     (simp_all add: add_ethernet_connection_command_def EthernetOptions_MAC_def
        EthernetOptions_MTU_def)

lemma add_bond_command_unfold:
  "add_bond_command con_name ifname mode miimon auto_connect save
       ipv4_method ipv4_addr ipv4_gw ipv6_method ipv6_addr ipv6_gw =
     nmcli_cmd_builder Objects_CONNECTION Operations_ADD con_name (PStr Types_BOND) ifname
       auto_connect save ipv4_method ipv4_addr ipv4_gw ipv6_method ipv6_addr ipv6_gw
       (Some ((if mode = PNone \<or> \<not> py_truthy mode then [] else [(''mode'', mode)])
              @ (if miimon = PNone \<or> \<not> py_truthy miimon then []
                 else [(''miimon'', miimon)])))"
  by (cases mode; cases miimon)
     (simp_all add: add_bond_command_def BondOptions_MODE_def BondOptions_MIIMON_def)

lemma add_vlan_command_unfold:
  "add_vlan_command con_name dev vlan_id mtu auto_connect save
       ipv4_method ipv4_addr ipv4_gw ipv6_method ipv6_addr ipv6_gw =
     nmcli_cmd_builder Objects_CONNECTION Operations_ADD con_name (PStr Types_VLAN) dev
       auto_connect save ipv4_method ipv4_addr ipv4_gw ipv6_method ipv6_addr ipv6_gw
       (Some ([(''dev'', dev), (''id'', vlan_id)]
              @ (if mtu = PNone \<or> \<not> py_truthy mtu then [] else [(''mtu'', mtu)])))"
  by (cases mtu)
     (simp_all add: add_vlan_command_def VlanOptions_DEV_def VlanOptions_ID_def
        VlanOptions_MTU_def)

lemma add_slave_command_unfold:
  "add_slave_command con_name slave_type ifname master auto_connect save =
     nmcli_cmd_builder Objects_CONNECTION Operations_ADD con_name slave_type ifname
       auto_connect save PNone PNone PNone PNone PNone PNone (Some [(''master'', master)])"
  by (simp add: add_slave_command_def SlaveOptions_MASTER_def)

lemma add_dummy_command_unfold:
  "add_dummy_command con_name ifname auto_connect save
       ipv4_method ipv4_addr ipv4_gw ipv6_method ipv6_addr ipv6_gw =
     nmcli_cmd_builder Objects_CONNECTION Operations_ADD con_name (PStr Types_DUMMY) ifname
       auto_connect save ipv4_method ipv4_addr ipv4_gw ipv6_method ipv6_addr ipv6_gw None"
  by (simp add: add_dummy_command_def)

lemma add_command_rendering:
  "nmcli_cmd_builder object_type Operations_ADD name con_type ifname auto_connect save
       ipv4_method ipv4_addr ipv4_gw ipv6_method ipv6_addr ipv6_gw type_options =
     ''nmcli '' @ object_type @ '' add type '' @ py_str con_type
     @ '' con-name '' @ py_str name @ '' ifname '' @ py_str ifname
     @ (if auto_connect = PNone then []
        else '' autoconnect '' @ (if auto_connect = PBool True then ''yes'' else ''no''))
     @ (if save = PNone then []
        else '' save '' @ (if save = PBool True then ''yes'' else ''no''))
     @ concat (map (\<lambda>(k, v). '' '' @ k @ '' '' @ py_str v)
         (case type_options of None \<Rightarrow> [] | Some items \<Rightarrow> items))
     @ ip_options_builder ipv4_addr ipv4_gw ipv4_method ipv6_addr ipv6_gw ipv6_method"
  unfolding nmcli_cmd_builder_unfold common_options_builder_unfold
  by (simp add: add_not_delete_modify get_str_value_def) (simp add: Operations_ADD_def)

section \<open>The command builder: rendering of the boolean options\<close>

text \<open>
  Claim C3. An ADD command is the base \<open>nmcli <object> add type ... con-name ... ifname ...\<close>
  followed by the autoconnect part, the save part, the type options and the IP options.
  When \<open>auto_connect\<close> is \<open>False\<close> the autoconnect part is the text \<open>" autoconnect no"\<close>, and
  when it is \<open>None\<close> the part is empty; the same holds for \<open>save\<close> and \<open>" save no"\<close>.
\<close>

theorem explicit_false_is_rendered:
  "nmcli_cmd_builder object_type Operations_ADD name con_type ifname auto_connect save
       ipv4_method ipv4_addr ipv4_gw ipv6_method ipv6_addr ipv6_gw type_options =
     ''nmcli '' @ object_type @ '' add type '' @ py_str con_type
     @ '' con-name '' @ py_str name @ '' ifname '' @ py_str ifname
     @ (if auto_connect = PBool False then '' autoconnect no''
        else if auto_connect = PNone then []
        else '' autoconnect '' @ get_str_value auto_connect)
     @ (if save = PBool False then '' save no''
        else if save = PNone then []
        else '' save '' @ get_str_value save)
     @ concat (map (\<lambda>(k, v). '' '' @ k @ '' '' @ py_str v)
         (case type_options of None \<Rightarrow> [] | Some items \<Rightarrow> items))
     @ ip_options_builder ipv4_addr ipv4_gw ipv4_method ipv6_addr ipv6_gw ipv6_method"
  unfolding nmcli_cmd_builder_unfold common_options_builder_unfold
  by (simp add: add_not_delete_modify get_str_value_def) (simp add: Operations_ADD_def)

theorem explicit_false_is_rendered_witness:
  "nmcli_cmd_builder ''connection'' Operations_ADD (PStr ''eth-test'') (PStr ''ethernet'')
       (PStr ''eth0'') (PBool False) PNone PNone PNone PNone PNone PNone PNone None =
     ''nmcli connection add type ethernet con-name eth-test ifname eth0 autoconnect no''
   \<and> nmcli_cmd_builder ''connection'' Operations_ADD (PStr ''eth-test'') (PStr ''ethernet'')
       (PStr ''eth0'') PNone (PBool False) PNone PNone PNone PNone PNone PNone None =
     ''nmcli connection add type ethernet con-name eth-test ifname eth0 save no''"
  unfolding explicit_false_is_rendered by (simp add: ip_options_builder_unfold)

text \<open>
  Claim C10. In every ADD command the value rendered after \<open>autoconnect\<close> (and after
  \<open>save\<close>) is \<open>yes\<close> when the parameter is the boolean \<open>True\<close> and \<open>no\<close> for every other
  value that is not \<open>None\<close>; the integer 1, for one, renders as \<open>no\<close>. This holds for the
  common options alone, for the command the builder returns for the operation \<open>add\<close>, and
  for the five add operations, which pass \<open>auto_connect\<close> and \<open>save\<close> to the builder as
  they receive them.
\<close>

theorem yes_only_for_True:
  "common_options_builder con_type con_name ifname auto_connect save =
     ''type '' @ py_str con_type @ '' con-name '' @ py_str con_name @ '' ifname '' @ py_str ifname
     @ (if auto_connect = PNone then []
        else '' autoconnect '' @ (if auto_connect = PBool True then ''yes'' else ''no''))
     @ (if save = PNone then []
        else '' save '' @ (if save = PBool True then ''yes'' else ''no''))
   \<and> nmcli_cmd_builder object_type Operations_ADD con_name con_type ifname auto_connect save
       ipv4_method ipv4_addr ipv4_gw ipv6_method ipv6_addr ipv6_gw type_options =
     ''nmcli '' @ object_type @ '' add type '' @ py_str con_type
     @ '' con-name '' @ py_str con_name @ '' ifname '' @ py_str ifname
     @ (if auto_connect = PNone then []
        else '' autoconnect '' @ (if auto_connect = PBool True then ''yes'' else ''no''))
     @ (if save = PNone then []
        else '' save '' @ (if save = PBool True then ''yes'' else ''no''))
     @ concat (map (\<lambda>(k, v). '' '' @ k @ '' '' @ py_str v)
         (case type_options of None \<Rightarrow> [] | Some items \<Rightarrow> items))
     @ ip_options_builder ipv4_addr ipv4_gw ipv4_method ipv6_addr ipv6_gw ipv6_method
   \<and> add_ethernet_connection_command con_name ifname auto_connect save mac mtu
       ipv4_method ipv4_addr ipv4_gw ipv6_method ipv6_addr ipv6_gw =
     nmcli_cmd_builder Objects_CONNECTION Operations_ADD con_name (PStr Types_ETHERNET) ifname
       auto_connect save ipv4_method ipv4_addr ipv4_gw ipv6_method ipv6_addr ipv6_gw
       (Some ((if mac = PNone \<or> \<not> py_truthy mac then [] else [(''mac'', mac)])
              @ (if mtu = PNone \<or> \<not> py_truthy mtu then [] else [(''mtu'', mtu)])))
   \<and> add_bond_command con_name ifname mode miimon auto_connect save
       ipv4_method ipv4_addr ipv4_gw ipv6_method ipv6_addr ipv6_gw =
     nmcli_cmd_builder Objects_CONNECTION Operations_ADD con_name (PStr Types_BOND) ifname
       auto_connect save ipv4_method ipv4_addr ipv4_gw ipv6_method ipv6_addr ipv6_gw
       (Some ((if mode = PNone \<or> \<not> py_truthy mode then [] else [(''mode'', mode)])
              @ (if miimon = PNone \<or> \<not> py_truthy miimon then []
                 else [(''miimon'', miimon)])))
   \<and> add_slave_command con_name slave_type ifname master auto_connect save =
     nmcli_cmd_builder Objects_CONNECTION Operations_ADD con_name slave_type ifname
       auto_connect save PNone PNone PNone PNone PNone PNone (Some [(''master'', master)])
   \<and> add_vlan_command con_name dev vlan_id vlan_mtu auto_connect save
       ipv4_method ipv4_addr ipv4_gw ipv6_method ipv6_addr ipv6_gw =
     nmcli_cmd_builder Objects_CONNECTION Operations_ADD con_name (PStr Types_VLAN) dev
       auto_connect save ipv4_method ipv4_addr ipv4_gw ipv6_method ipv6_addr ipv6_gw
       (Some ([(''dev'', dev), (''id'', vlan_id)]
              @ (if vlan_mtu = PNone \<or> \<not> py_truthy vlan_mtu then []
                 else [(''mtu'', vlan_mtu)])))
   \<and> add_dummy_command con_name ifname auto_connect save
       ipv4_method ipv4_addr ipv4_gw ipv6_method ipv6_addr ipv6_gw =
     nmcli_cmd_builder Objects_CONNECTION Operations_ADD con_name (PStr Types_DUMMY) ifname
       auto_connect save ipv4_method ipv4_addr ipv4_gw ipv6_method ipv6_addr ipv6_gw None"
proof (intro conjI)
  show "common_options_builder con_type con_name ifname auto_connect save =
     ''type '' @ py_str con_type @ '' con-name '' @ py_str con_name @ '' ifname '' @ py_str ifname
     @ (if auto_connect = PNone then []
        else '' autoconnect '' @ (if auto_connect = PBool True then ''yes'' else ''no''))
     @ (if save = PNone then []
        else '' save '' @ (if save = PBool True then ''yes'' else ''no''))"
    unfolding common_options_builder_unfold by (simp add: get_str_value_def)
qed (rule add_command_rendering add_ethernet_connection_command_unfold
      add_bond_command_unfold add_slave_command_unfold add_vlan_command_unfold
      add_dummy_command_unfold)+

theorem yes_only_for_True_witness:
  "common_options_builder (PStr ''ethernet'') (PStr ''c'') (PStr ''eth0'') (PInt 1) (PBool True) =
     ''type ethernet con-name c ifname eth0 autoconnect no save yes''
   \<and> nmcli_cmd_builder ''connection'' Operations_ADD (PStr ''c'') (PStr ''ethernet'')
       (PStr ''eth0'') (PInt 1) (PBool True) PNone PNone PNone PNone PNone PNone None =
     ''nmcli connection add type ethernet con-name c ifname eth0 autoconnect no save yes''
   \<and> add_dummy_command (PStr ''c'') (PStr ''d0'') (PStr ''yes'') (PInt 0)
       PNone PNone PNone PNone PNone PNone =
     ''nmcli connection add type dummy con-name c ifname d0 autoconnect no save no''"
proof -
  note parts = yes_only_for_True [THEN conjunct1]
    yes_only_for_True [THEN conjunct2, THEN conjunct1]
    yes_only_for_True [THEN conjunct2, THEN conjunct2, THEN conjunct2, THEN conjunct2,
      THEN conjunct2, THEN conjunct2]
  show ?thesis
    unfolding parts
    by (simp add: ip_options_builder_unfold nmcli_constants)
qed

section \<open>The command builder: order and omission of the options\<close>

text \<open>
  Claim C4. An ADD command built with a dictionary of type options consists of three
  consecutive segments: the base with the common options, then one \<open>" <key> <value>"\<close> for
  each item of the dictionary in its order, then the IP options. So every type option
  stands before every IP option.
\<close>

theorem type_options_before_ip_options:
  "nmcli_cmd_builder object_type Operations_ADD name con_type ifname auto_connect save
       ipv4_method ipv4_addr ipv4_gw ipv6_method ipv6_addr ipv6_gw (Some items) =
     (''nmcli '' @ object_type @ '' '' @ Operations_ADD @ '' ''
        @ common_options_builder con_type name ifname auto_connect save)
     @ concat (map (\<lambda>(k, v). '' '' @ k @ '' '' @ py_str v) items)
     @ ip_options_builder ipv4_addr ipv4_gw ipv4_method ipv6_addr ipv6_gw ipv6_method"
  unfolding nmcli_cmd_builder_unfold by (simp add: add_not_delete_modify)

theorem type_options_before_ip_options_witness:
  "nmcli_cmd_builder ''connection'' Operations_ADD (PStr ''c'') (PStr ''ethernet'')
       (PStr ''eth0'') PNone PNone (PStr ''manual'') (PStr ''10.0.0.2/24'') PNone PNone PNone PNone
       (Some [(''mac'', PStr ''aa:bb''), (''mtu'', PInt 1500)]) =
     ''nmcli connection add type ethernet con-name c ifname eth0''
       @ '' mac aa:bb mtu 1500''
       @ '' ipv4.method manual ipv4.addresses 10.0.0.2/24''"
  unfolding type_options_before_ip_options
  by (simp add: common_options_builder_unfold ip_options_builder_unfold Operations_ADD_def
      str_int_def digits.simps)

text \<open>
  Claim C6. A built command is its tokens joined by single spaces, and a parameter that
  is \<open>None\<close> has no token in it: \<open>autoconnect\<close> and \<open>save\<close> contribute their two tokens
  only when they are not \<open>None\<close>, each of the six IP options contributes nothing when it
  is \<open>None\<close>, and the type options contribute the items of the dictionary and nothing
  when there is none. Each add operation passes the builder a dictionary that has an item
  for a type option (\<open>mac\<close>, \<open>mtu\<close>, \<open>mode\<close>, \<open>miimon\<close>) only when that option is not \<open>None\<close>,
  whatever the other options are; \<open>add_dummy\<close> passes no dictionary.
\<close>

theorem absence_omission:
  "nmcli_cmd_builder object_type operation name con_type ifname auto_connect save
       ipv4_method ipv4_addr ipv4_gw ipv6_method ipv6_addr ipv6_gw type_options =
     join_tokens
       ([''nmcli'', object_type, operation]
        @ (if operation = Operations_DELETE \<or> operation = Operations_MODIFY
           then [py_str name]
           else if operation = Operations_ADD
           then [''type'', py_str con_type, ''con-name'', py_str name, ''ifname'', py_str ifname]
                @ (if auto_connect = PNone then [] else [''autoconnect'', get_str_value auto_connect])
                @ (if save = PNone then [] else [''save'', get_str_value save])
           else [])
        @ (case type_options of
             None \<Rightarrow> []
           | Some items \<Rightarrow> concat (map (\<lambda>(k, v). [k, py_str v]) items))
        @ (if ipv4_method = PNone \<or> \<not> py_truthy ipv4_method then []
           else [''ipv4.method'', py_str ipv4_method])
        @ (if ipv6_method = PNone \<or> \<not> py_truthy ipv6_method then []
           else [''ipv6.method'', py_str ipv6_method])
        @ (if ipv4_addr = PNone \<or> \<not> py_truthy ipv4_addr then []
           else [''ipv4.addresses'', py_str ipv4_addr])
        @ (if ipv4_gw = PNone \<or> \<not> py_truthy ipv4_gw then []
           else [''ipv4.gateway'', py_str ipv4_gw])
        @ (if ipv6_addr = PNone \<or> \<not> py_truthy ipv6_addr then []
           else [''ipv6.addresses'', py_str ipv6_addr])
        @ (if ipv6_gw = PNone \<or> \<not> py_truthy ipv6_gw then []
           else [''ipv6.gateway'', py_str ipv6_gw]))
   \<and> add_ethernet_connection_command name ifname auto_connect save mac mtu
       ipv4_method ipv4_addr ipv4_gw ipv6_method ipv6_addr ipv6_gw =
     nmcli_cmd_builder Objects_CONNECTION Operations_ADD name (PStr Types_ETHERNET) ifname
       auto_connect save ipv4_method ipv4_addr ipv4_gw ipv6_method ipv6_addr ipv6_gw
       (Some ((if mac = PNone \<or> \<not> py_truthy mac then [] else [(''mac'', mac)])
              @ (if mtu = PNone \<or> \<not> py_truthy mtu then [] else [(''mtu'', mtu)])))
   \<and> add_bond_command name ifname mode miimon auto_connect save
       ipv4_method ipv4_addr ipv4_gw ipv6_method ipv6_addr ipv6_gw =
     nmcli_cmd_builder Objects_CONNECTION Operations_ADD name (PStr Types_BOND) ifname
       auto_connect save ipv4_method ipv4_addr ipv4_gw ipv6_method ipv6_addr ipv6_gw
       (Some ((if mode = PNone \<or> \<not> py_truthy mode then [] else [(''mode'', mode)])
              @ (if miimon = PNone \<or> \<not> py_truthy miimon then []
                 else [(''miimon'', miimon)])))
   \<and> add_slave_command name slave_type ifname master auto_connect save =
     nmcli_cmd_builder Objects_CONNECTION Operations_ADD name slave_type ifname
       auto_connect save PNone PNone PNone PNone PNone PNone (Some [(''master'', master)])
   \<and> add_vlan_command name ifname vlan_id vlan_mtu auto_connect save
       ipv4_method ipv4_addr ipv4_gw ipv6_method ipv6_addr ipv6_gw =
     nmcli_cmd_builder Objects_CONNECTION Operations_ADD name (PStr Types_VLAN) ifname
       auto_connect save ipv4_method ipv4_addr ipv4_gw ipv6_method ipv6_addr ipv6_gw
       (Some ([(''dev'', ifname), (''id'', vlan_id)]
              @ (if vlan_mtu = PNone \<or> \<not> py_truthy vlan_mtu then []
                 else [(''mtu'', vlan_mtu)])))
   \<and> add_dummy_command name ifname auto_connect save
       ipv4_method ipv4_addr ipv4_gw ipv6_method ipv6_addr ipv6_gw =
     nmcli_cmd_builder Objects_CONNECTION Operations_ADD name (PStr Types_DUMMY) ifname
       auto_connect save ipv4_method ipv4_addr ipv4_gw ipv6_method ipv6_addr ipv6_gw None"
proof (intro conjI)
  let ?sp = "\<lambda>ts. concat (map (\<lambda>u. '' '' @ u) ts)"
  have items: "?sp (case type_options of
                      None \<Rightarrow> []
                    | Some items \<Rightarrow> concat (map (\<lambda>(k, v). [k, py_str v]) items)) =
      concat (map (\<lambda>(k, v). '' '' @ k @ '' '' @ py_str v)
        (case type_options of None \<Rightarrow> [] | Some items \<Rightarrow> items))"
  proof (cases type_options)
    case None
    then show ?thesis by simp
  next
    case (Some items)
    have "?sp (concat (map (\<lambda>(k, v). [k, py_str v]) items)) =
        concat (map (\<lambda>(k, v). '' '' @ k @ '' '' @ py_str v) items)"
      by (induction items) auto
    with Some show ?thesis by simp
  qed
  have ip: "?sp (if v = PNone \<or> \<not> py_truthy v then [] else [key, py_str v]) =
      (if py_truthy v then '' '' @ key @ '' '' @ py_str v else [])" for v key
    by (cases v) simp_all
  have flag: "?sp (if v = PNone then [] else [key, w]) =
      (if v = PNone then [] else '' '' @ key @ '' '' @ w)" for v :: pyval and key w
    by simp
  have app: "?sp (ts @ us) = ?sp ts @ ?sp us" for ts us
    by simp
  have head: "?sp (if operation = Operations_DELETE \<or> operation = Operations_MODIFY
           then [py_str name]
           else if operation = Operations_ADD
           then [''type'', py_str con_type, ''con-name'', py_str name, ''ifname'', py_str ifname]
                @ (if auto_connect = PNone then [] else [''autoconnect'', get_str_value auto_connect])
                @ (if save = PNone then [] else [''save'', get_str_value save])
           else []) =
     (if operation = Operations_DELETE \<or> operation = Operations_MODIFY
        then '' '' @ py_str name
        else if operation = Operations_ADD
        then '' '' @ common_options_builder con_type name ifname auto_connect save
        else [])"
    unfolding common_options_builder_unfold by simp
  have start: "join_tokens ([a, b, c] @ ts) = a @ '' '' @ b @ '' '' @ c @ ?sp ts" for a b c ts
    by (simp add: join_tokens_Cons)
  show "nmcli_cmd_builder object_type operation name con_type ifname auto_connect save
       ipv4_method ipv4_addr ipv4_gw ipv6_method ipv6_addr ipv6_gw type_options =
     join_tokens
       ([''nmcli'', object_type, operation]
        @ (if operation = Operations_DELETE \<or> operation = Operations_MODIFY
           then [py_str name]
           else if operation = Operations_ADD
           then [''type'', py_str con_type, ''con-name'', py_str name, ''ifname'', py_str ifname]
                @ (if auto_connect = PNone then [] else [''autoconnect'', get_str_value auto_connect])
                @ (if save = PNone then [] else [''save'', get_str_value save])
           else [])
        @ (case type_options of
             None \<Rightarrow> []
           | Some items \<Rightarrow> concat (map (\<lambda>(k, v). [k, py_str v]) items))
        @ (if ipv4_method = PNone \<or> \<not> py_truthy ipv4_method then []
           else [''ipv4.method'', py_str ipv4_method])
        @ (if ipv6_method = PNone \<or> \<not> py_truthy ipv6_method then []
           else [''ipv6.method'', py_str ipv6_method])
        @ (if ipv4_addr = PNone \<or> \<not> py_truthy ipv4_addr then []
           else [''ipv4.addresses'', py_str ipv4_addr])
        @ (if ipv4_gw = PNone \<or> \<not> py_truthy ipv4_gw then []
           else [''ipv4.gateway'', py_str ipv4_gw])
        @ (if ipv6_addr = PNone \<or> \<not> py_truthy ipv6_addr then []
           else [''ipv6.addresses'', py_str ipv6_addr])
        @ (if ipv6_gw = PNone \<or> \<not> py_truthy ipv6_gw then []
           else [''ipv6.gateway'', py_str ipv6_gw]))"
    unfolding nmcli_cmd_builder_unfold ip_options_builder_unfold start
    by (simp only: app ip flag items head) simp
qed (rule add_ethernet_connection_command_unfold add_bond_command_unfold
      add_slave_command_unfold add_vlan_command_unfold add_dummy_command_unfold)+

theorem absence_omission_witness:
  "nmcli_cmd_builder ''connection'' Operations_ADD (PStr ''c'') (PStr ''dummy'') (PStr ''d0'')
       PNone PNone PNone PNone PNone PNone PNone PNone None =
     ''nmcli connection add type dummy con-name c ifname d0''
   \<and> nmcli_cmd_builder ''connection'' Operations_ADD (PStr ''c'') (PStr ''dummy'') (PStr ''d0'')
       PNone (PBool True) PNone PNone (PStr ''10.0.0.1'') PNone PNone PNone None =
     ''nmcli connection add type dummy con-name c ifname d0 save yes ipv4.gateway 10.0.0.1''
   \<and> add_ethernet_connection_command (PStr ''c'') (PStr ''eth0'') PNone PNone PNone
       (PStr ''1500'') PNone PNone PNone PNone PNone PNone =
     ''nmcli connection add type ethernet con-name c ifname eth0 mtu 1500''
   \<and> add_bond_command (PStr ''b'') (PStr ''bond0'') (PStr ''active-backup'') PNone PNone PNone
       PNone PNone PNone PNone PNone PNone =
     ''nmcli connection add type bond con-name b ifname bond0 mode active-backup''"
proof -
  note parts = absence_omission [THEN conjunct2, THEN conjunct1]
    absence_omission [THEN conjunct2, THEN conjunct2, THEN conjunct1]
    absence_omission [THEN conjunct1]
  show ?thesis
    unfolding parts
    by (simp add: add_not_delete_modify get_str_value_def) (simp add: nmcli_constants)
qed

text \<open>
  Claim C5. The IP options are the concatenation, in the fixed order \<open>ipv4.method\<close>,
  \<open>ipv6.method\<close>, \<open>ipv4.addresses\<close>, \<open>ipv4.gateway\<close>, \<open>ipv6.addresses\<close>,
  \<open>ipv6.gateway\<close>, of one \<open>" <key> <value>"\<close> for each parameter whose value is true in a
  condition. A value that is provided but false there is left out, as \<open>None\<close> is: the
  empty string, for one.
\<close>

theorem ip_options_fixed_order:
  "ip_options_builder ipv4_addr ipv4_gw ipv4_method ipv6_addr ipv6_gw ipv6_method =
     (if py_truthy ipv4_method then '' ipv4.method '' @ py_str ipv4_method else [])
   @ (if py_truthy ipv6_method then '' ipv6.method '' @ py_str ipv6_method else [])
   @ (if py_truthy ipv4_addr then '' ipv4.addresses '' @ py_str ipv4_addr else [])
   @ (if py_truthy ipv4_gw then '' ipv4.gateway '' @ py_str ipv4_gw else [])
   @ (if py_truthy ipv6_addr then '' ipv6.addresses '' @ py_str ipv6_addr else [])
   @ (if py_truthy ipv6_gw then '' ipv6.gateway '' @ py_str ipv6_gw else [])"
  by (simp add: ip_options_builder_def Let_def)

theorem ip_options_fixed_order_witness:
  "ip_options_builder (PStr ''10.0.0.2/24'') PNone (PStr ''manual'') PNone (PStr ''fe80::1'')
       (PStr ''auto'') =
     '' ipv4.method manual ipv6.method auto ipv4.addresses 10.0.0.2/24 ipv6.gateway fe80::1''"
  unfolding ip_options_fixed_order by simp

theorem ip_options_empty_string_dropped:
  "PStr [] \<noteq> PNone \<and>
   ip_options_builder PNone PNone (PStr []) PNone PNone PNone = []"
  by (simp add: ip_options_builder_unfold)

section \<open>The operations that add a connection: zero-valued parameters\<close>

lemma zero_vlan_id_rendered:
  "add_vlan_command con_name dev (PInt 0) mtu auto_connect save
       ipv4_method ipv4_addr ipv4_gw ipv6_method ipv6_addr ipv6_gw =
     ''nmcli connection add ''
       @ common_options_builder (PStr ''vlan'') con_name dev auto_connect save
       @ '' dev '' @ py_str dev @ '' id 0''
       @ (if py_truthy mtu then '' mtu '' @ py_str mtu else [])
       @ ip_options_builder ipv4_addr ipv4_gw ipv4_method ipv6_addr ipv6_gw ipv6_method"
  by (simp add: add_vlan_command_def nmcli_cmd_builder_unfold nmcli_constants str_int_0)

text \<open>
  Claim C2. The VLAN id is stored in the dictionary of type options without a test, so an
  id of 0 is rendered (\<open>zero_vlan_id_rendered\<close>). The MTU of \<open>add_vlan\<close> and of
  \<open>add_ethernet_connection\<close> and the \<open>miimon\<close> of \<open>add_bond\<close> are stored under
  \<open>if mtu:\<close> and \<open>if miimon:\<close>: with the value 0 the built command has no \<open>mtu 0\<close> and no
  \<open>miimon 0\<close>, so a provided zero is dropped there.
\<close>

theorem zero_mtu_and_miimon_dropped:
  "add_vlan_command (PStr ''vlan10'') (PStr ''eth0'') (PInt 10) (PInt 0)
      PNone PNone PNone PNone PNone PNone PNone PNone =
     ''nmcli connection add type vlan con-name vlan10 ifname eth0 dev eth0 id 10''
   \<and> add_ethernet_connection_command (PStr ''c'') (PStr ''eth0'') PNone PNone PNone (PInt 0)
      PNone PNone PNone PNone PNone PNone =
     ''nmcli connection add type ethernet con-name c ifname eth0''
   \<and> add_bond_command (PStr ''b'') (PStr ''bond0'') PNone (PInt 0) PNone PNone
      PNone PNone PNone PNone PNone PNone =
     ''nmcli connection add type bond con-name b ifname bond0''"
  by (simp add: add_vlan_command_def add_ethernet_connection_command_def add_bond_command_def
      nmcli_cmd_builder_unfold common_options_builder_unfold ip_options_builder_unfold
      nmcli_constants str_int_def digits.simps)

section \<open>The facade: execution of a command\<close>

lemmas shlex_chars =
  shlex_whitespace_def shlex_quotes_def shlex_escape_def shlex_escapedquotes_def

lemma connection_show_split:
  "shlex_split (''nmcli -t '' @ Objects_CONNECTION @ '' '' @ Operations_SHOW) =
     Inr [''nmcli'', ''-t'', ''connection'', ''show'']"
  by (simp add: shlex_split_def shlex_chars nmcli_constants)


lemma exec_command_unfold:
  assumes "shlex_split command = Inr split"
    and "run_cmd self (executor self) split = ((r, out, e), executor')"
  shows "exec_command self command =
     (if r = 0 then (Inr out, self\<lparr>executor := executor'\<rparr>)
      else (Inl (CommandExecutionFailure split r e),
            self\<lparr>executor := executor',
                 logger := logger self @ [error_msg command r out e]\<rparr>))"
  using assms by (simp add: exec_command_def)

text \<open>
  Claim C1. When the command splits into an argument vector and the executor answers it
  with exit code 0, \<open>_exec_command\<close> returns the standard output unchanged. When the exit
  code is not 0 it raises \<open>CommandExecutionFailure\<close>, which carries the argument vector,
  the exit code and the error output; the command as written and the standard output are
  in the message logged before the raise, not in the exception.
\<close>

theorem exec_command_result:
  assumes "shlex_split command = Inr split"
    and "run_cmd self (executor self) split = ((r, out, e), executor')"
  shows "exec_command self command =
     (if r = 0 then (Inr out, self\<lparr>executor := executor'\<rparr>)
      else (Inl (CommandExecutionFailure split r e),
            self\<lparr>executor := executor',
                 logger := logger self @ [error_msg command r out e]\<rparr>))"
  using assms by (simp add: exec_command_def)

theorem exec_command_result_witness:
  "exec_command (service (scripted [] (0, ''done'', []))) ''nmcli connection up lan'' =
     (Inr ''done'', (service (scripted [] (0, ''done'', [])))
                      \<lparr>executor := [[''nmcli'', ''connection'', ''up'', ''lan'']]\<rparr>)
   \<and> exec_command (service (scripted [] (10, ''partial'', ''unknown connection'')))
        ''nmcli connection up lan'' =
     (Inl (CommandExecutionFailure [''nmcli'', ''connection'', ''up'', ''lan''] 10
             ''unknown connection''),
      (service (scripted [] (10, ''partial'', ''unknown connection'')))
        \<lparr>executor := [[''nmcli'', ''connection'', ''up'', ''lan'']],
         logger := [''command -> nmcli connection up lan'' @ [CHR 0x0A] @ ''RC -> 10''
                      @ [CHR 0x0A] @ ''OUT -> partial'' @ [CHR 0x0A]
                      @ ''ERROR -> unknown connection'']\<rparr>)"
proof -
  have s: "shlex_split ''nmcli connection up lan'' = Inr [''nmcli'', ''connection'', ''up'', ''lan'']"
    by (simp add: shlex_split_def shlex_chars)
  have r0: "run_cmd (service (scripted [] (0, ''done'', [])))
               (executor (service (scripted [] (0, ''done'', []))))
               [''nmcli'', ''connection'', ''up'', ''lan''] =
            ((0, ''done'', []), [[''nmcli'', ''connection'', ''up'', ''lan'']])"
    by (simp add: service_def scripted_def recording_def)
  have r1: "run_cmd (service (scripted [] (10, ''partial'', ''unknown connection'')))
               (executor (service (scripted [] (10, ''partial'', ''unknown connection''))))
               [''nmcli'', ''connection'', ''up'', ''lan''] =
            ((10, ''partial'', ''unknown connection''), [[''nmcli'', ''connection'', ''up'', ''lan'']])"
    by (simp add: service_def scripted_def recording_def)
  show ?thesis
    unfolding exec_command_result [OF s r0] exec_command_result [OF s r1]
    by (simp add: service_def error_msg_def str_int_def digits.simps)
qed

theorem failure_without_stdout:
  "fst (exec_command (service (scripted [] (1, ''first output'', ''boom'')))
          ''nmcli connection delete lan'') =
     Inl (CommandExecutionFailure [''nmcli'', ''connection'', ''delete'', ''lan''] 1 ''boom'')
   \<and> fst (exec_command (service (scripted [] (1, ''second output'', ''boom'')))
          ''nmcli  connection  delete  lan'') =
     Inl (CommandExecutionFailure [''nmcli'', ''connection'', ''delete'', ''lan''] 1 ''boom'')"
  by (simp add: exec_command_def service_def scripted_def recording_def shlex_split_def shlex_chars)

section \<open>The facade: listing the connections\<close>

lemma getitem_fail: "length xs \<le> i \<Longrightarrow> getitem xs i = Inl IndexError"
  by (simp add: getitem_def)

lemma connections_loop_ok:
  "\<forall>line \<in> set lines. 4 \<le> length (str_split (CHR '':'') line) \<Longrightarrow>
   connections_loop lines connections =
     Inr (connections @
          map (\<lambda>line. [(''name'', str_split (CHR '':'') line ! 0),
                        (''uuid'', str_split (CHR '':'') line ! 1),
                        (''type'', str_split (CHR '':'') line ! 2),
                        (''device'', str_split (CHR '':'') line ! 3)]) lines)"
proof (induction lines arbitrary: connections)
  case Nil
  then show ?case by simp
next
  case (Cons line lines)
  let ?p = "str_split (CHR '':'') line"
  from Cons.prems have "4 \<le> length ?p" by simp
  then have "getitem ?p 0 = Inr (?p ! 0)" "getitem ?p 1 = Inr (?p ! 1)"
      "getitem ?p 2 = Inr (?p ! 2)" "getitem ?p 3 = Inr (?p ! 3)"
    by (auto simp: getitem_def)
  moreover from Cons.prems
  have "\<forall>line \<in> set lines. 4 \<le> length (str_split (CHR '':'') line)" by simp
  ultimately show ?case
    by (simp add: Let_def Cons.IH nmcli_constants)
qed

lemma connections_loop_short:
  "\<exists>line \<in> set lines. length (str_split (CHR '':'') line) < 4 \<Longrightarrow>
   connections_loop lines connections = Inl IndexError"
proof (induction lines arbitrary: connections)
  case Nil
  then show ?case by simp
next
  case (Cons line lines)
  let ?p = "str_split (CHR '':'') line"
  show ?case
  proof (cases "length ?p < 4")
    case True
    then have "getitem ?p 3 = Inl IndexError"
      by (simp add: getitem_fail)
    moreover have "getitem ?p i = Inl x \<Longrightarrow> x = IndexError" for i x
      by (simp add: getitem_def split: if_splits)
    ultimately show ?thesis
      by (auto simp: Let_def split: sum.split)
  next
    case False
    then have "getitem ?p 0 = Inr (?p ! 0)" "getitem ?p 1 = Inr (?p ! 1)"
      "getitem ?p 2 = Inr (?p ! 2)" "getitem ?p 3 = Inr (?p ! 3)"
      by (auto simp: getitem_def)
    moreover from Cons.prems False
    have "\<exists>line \<in> set lines. length (str_split (CHR '':'') line) < 4"
      by auto
    ultimately show ?thesis
      by (simp add: Let_def Cons.IH)
  qed
qed

text \<open>
  Claim C7. When the listing command is answered with exit code 0 and every line of the
  output has exactly four fields separated by colons, \<open>get_all_connections\<close> returns one
  record per line, in the order of the lines, with the four fields under the keys
  \<open>name\<close>, \<open>uuid\<close>, \<open>type\<close> and \<open>device\<close>.
\<close>

theorem get_all_connections_records:
  assumes "run_cmd self (executor self) [''nmcli'', ''-t'', ''connection'', ''show''] =
             ((0, out, e), executor')"
    and "\<forall>line \<in> set (splitlines out). length (str_split (CHR '':'') line) = 4"
  shows "get_all_connections self =
     (Inr (map (\<lambda>line. [(''name'', str_split (CHR '':'') line ! 0),
                         (''uuid'', str_split (CHR '':'') line ! 1),
                         (''type'', str_split (CHR '':'') line ! 2),
                         (''device'', str_split (CHR '':'') line ! 3)]) (splitlines out)),
      self\<lparr>executor := executor'\<rparr>)"
proof -
  have run: "exec_command self (''nmcli -t '' @ Objects_CONNECTION @ '' '' @ Operations_SHOW) =
      (Inr out, self\<lparr>executor := executor'\<rparr>)"
    unfolding exec_command_unfold [OF connection_show_split assms(1)] by simp
  have "\<forall>line \<in> set (splitlines out). 4 \<le> length (str_split (CHR '':'') line)"
    using assms(2) by simp
  then show ?thesis
    unfolding get_all_connections_def run by (simp add: connections_loop_ok)
qed

theorem get_all_connections_records_witness:
  "fst (get_all_connections
          (service (scripted []
             (0, ''lan:1234-uuid:ethernet:eth0'' @ [CHR 0x0A] @ ''wifi:5678-uuid:wifi:wlan0'',
              [])))) =
     Inr [[(''name'', ''lan''), (''uuid'', ''1234-uuid''), (''type'', ''ethernet''),
           (''device'', ''eth0'')],
          [(''name'', ''wifi''), (''uuid'', ''5678-uuid''), (''type'', ''wifi''),
           (''device'', ''wlan0'')]]"
proof -
  let ?out = "''lan:1234-uuid:ethernet:eth0'' @ [CHR 0x0A] @ ''wifi:5678-uuid:wifi:wlan0''"
  let ?s = "service (scripted [] (0, ?out, []))"
  have lines: "splitlines ?out = [''lan:1234-uuid:ethernet:eth0'', ''wifi:5678-uuid:wifi:wlan0'']"
    by (simp add: splitlines_def line_boundaries_def)
  have f1: "str_split (CHR '':'') ''lan:1234-uuid:ethernet:eth0'' =
      [''lan'', ''1234-uuid'', ''ethernet'', ''eth0'']"
    by (simp add: str_split_def)
  have f2: "str_split (CHR '':'') ''wifi:5678-uuid:wifi:wlan0'' =
      [''wifi'', ''5678-uuid'', ''wifi'', ''wlan0'']"
    by (simp add: str_split_def)
  have run: "run_cmd ?s (executor ?s) [''nmcli'', ''-t'', ''connection'', ''show''] =
      ((0, ?out, []), [[''nmcli'', ''-t'', ''connection'', ''show'']])"
    by (simp add: service_def scripted_def recording_def)
  have four: "\<forall>line \<in> set (splitlines ?out). length (str_split (CHR '':'') line) = 4"
    unfolding lines by (simp add: f1 f2)
  show ?thesis
    unfolding get_all_connections_records [OF run four] lines by (simp add: f1 f2)
qed

text \<open>
  Claim C9. When the listing command is answered with exit code 0 and a line of the output
  has fewer than four fields separated by colons, \<open>get_all_connections\<close> raises
  \<open>IndexError\<close> and returns no record, neither an empty one.
\<close>

theorem short_line_raises:
  assumes "run_cmd self (executor self) [''nmcli'', ''-t'', ''connection'', ''show''] =
             ((0, out, e), executor')"
    and "\<exists>line \<in> set (splitlines out). length (str_split (CHR '':'') line) < 4"
  shows "get_all_connections self = (Inl IndexError, self\<lparr>executor := executor'\<rparr>)"
proof -
  have run: "exec_command self (''nmcli -t '' @ Objects_CONNECTION @ '' '' @ Operations_SHOW) =
      (Inr out, self\<lparr>executor := executor'\<rparr>)"
    unfolding exec_command_unfold [OF connection_show_split assms(1)] by simp
  show ?thesis
    unfolding get_all_connections_def run
    by (simp add: connections_loop_short [OF assms(2)])
qed

theorem short_line_raises_witness:
  "fst (get_all_connections
          (service (scripted []
             (0, ''lan:1234-uuid:ethernet:eth0'' @ [CHR 0x0A] @ ''wifi:5678-uuid'', [])))) =
     Inl IndexError"
proof -
  let ?out = "''lan:1234-uuid:ethernet:eth0'' @ [CHR 0x0A] @ ''wifi:5678-uuid''"
  let ?s = "service (scripted [] (0, ?out, []))"
  have lines: "splitlines ?out = [''lan:1234-uuid:ethernet:eth0'', ''wifi:5678-uuid'']"
    by (simp add: splitlines_def line_boundaries_def)
  have run: "run_cmd ?s (executor ?s) [''nmcli'', ''-t'', ''connection'', ''show''] =
      ((0, ?out, []), [[''nmcli'', ''-t'', ''connection'', ''show'']])"
    by (simp add: service_def scripted_def recording_def)
  have short: "\<exists>line \<in> set (splitlines ?out). length (str_split (CHR '':'') line) < 4"
    unfolding lines by (simp add: str_split_def)
  show ?thesis
    unfolding short_line_raises [OF run short] by simp
qed

theorem short_line_raises_IndexError:
  "fst (get_all_connections (service (scripted [] (0, ''lan:1234-uuid'', [])))) =
     Inl IndexError"
proof -
  let ?s = "service (scripted [] (0, ''lan:1234-uuid'', []))"
  have "run_cmd ?s (executor ?s) [''nmcli'', ''-t'', ''connection'', ''show''] =
      ((0, ''lan:1234-uuid'', []), [[''nmcli'', ''-t'', ''connection'', ''show'']])"
    by (simp add: service_def scripted_def recording_def)
  from exec_command_unfold [OF connection_show_split this]
  have run: "exec_command ?s (''nmcli -t '' @ Objects_CONNECTION @ '' '' @ Operations_SHOW) =
      (Inr ''lan:1234-uuid'', ?s\<lparr>executor := [[''nmcli'', ''-t'', ''connection'', ''show'']]\<rparr>)"
    by simp
  show ?thesis
    unfolding get_all_connections_def run
    by (simp add: splitlines_def line_boundaries_def str_split_def getitem_def)
qed

section \<open>The facade: listing the devices\<close>








end
